theory Spec2Isabelle
  imports Complex_Main "HOL-Library.Word"
begin

section \<open>recaptcha.go: data model\<close>

text \<open>
  \<^verbatim>\<open>type VERSION int8\<close> with \<^verbatim>\<open>V2 VERSION = iota\<close> and \<^verbatim>\<open>V3\<close>: an open 8-bit integer type,
  of which only the values 0 and 1 are named.
\<close>

type_synonym VERSION = "8 word"

definition V2 :: VERSION where
  "V2 = 0"

definition V3 :: VERSION where
  "V3 = 1"

text \<open>\<^verbatim>\<open>time.Duration\<close> is an \<^verbatim>\<open>int64\<close> count of nanoseconds; its comparisons are signed.\<close>

type_synonym Duration = "64 word"

definition Second :: Duration where
  "Second = 1000000000"

subsection \<open>float32 values\<close>

text \<open>
  The program never computes with a \<^verbatim>\<open>float32\<close>: it compares two of them and prints them.
  A \<^verbatim>\<open>float32\<close> is therefore modelled by the value its bit pattern denotes: a NaN, one of
  the two infinities, the negative zero, or a rational number (the positive zero is
  \<open>Finite 0\<close>). Every bit pattern denotes exactly one of these; the rationals that no
  bit pattern denotes are harmless extra inputs of the model.  The comparisons follow
  IEEE 754 as Go's \<^verbatim>\<open>==\<close>, \<^verbatim>\<open>!=\<close>, \<^verbatim>\<open><\<close> and \<^verbatim>\<open>>\<close> do: any comparison with a NaN is false
  (so \<^verbatim>\<open>!=\<close> is true), and the two zeros are equal.
\<close>

datatype float32 = NaN | PosInf | NegInf | NegZero | Finite rat

fun f32_lt :: "float32 \<Rightarrow> float32 \<Rightarrow> bool" where
  "f32_lt NaN b = False"
| "f32_lt a NaN = False"
| "f32_lt PosInf b = False"
| "f32_lt a NegInf = False"
| "f32_lt NegInf b = True"
| "f32_lt a PosInf = True"
| "f32_lt NegZero NegZero = False"
| "f32_lt NegZero (Finite y) = (0 < y)"
| "f32_lt (Finite x) NegZero = (x < 0)"
| "f32_lt (Finite x) (Finite y) = (x < y)"

definition f32_gt :: "float32 \<Rightarrow> float32 \<Rightarrow> bool" where
  "f32_gt a b = f32_lt b a"

fun f32_eq :: "float32 \<Rightarrow> float32 \<Rightarrow> bool" where
  "f32_eq NaN b = False"
| "f32_eq a NaN = False"
| "f32_eq PosInf b = (b = PosInf)"
| "f32_eq NegInf b = (b = NegInf)"
| "f32_eq a PosInf = False"
| "f32_eq a NegInf = False"
| "f32_eq NegZero NegZero = True"
| "f32_eq NegZero (Finite y) = (y = 0)"
| "f32_eq (Finite x) NegZero = (x = 0)"
| "f32_eq (Finite x) (Finite y) = (x = y)"

definition f32_ge :: "float32 \<Rightarrow> float32 \<Rightarrow> bool" where
  "f32_ge a b = (f32_lt b a \<or> f32_eq a b)"

text \<open>The untyped constant \<^verbatim>\<open>0\<close> in \<^verbatim>\<open>options.Threshold != 0\<close>, converted to \<^verbatim>\<open>float32\<close>.\<close>

definition f32_zero :: float32 where
  "f32_zero = Finite 0"

text \<open>\<^verbatim>\<open>DefaultThreshold float32 = 0.5\<close>, which binary floating point represents exactly.\<close>

definition DefaultThreshold :: float32 where
  "DefaultThreshold = Finite (1 / 2)"

subsection \<open>The structs\<close>

record reCHAPTCHARequest =
  req_Secret :: string
  req_Response :: string
  req_RemoteIP :: string

text \<open>
  \<^verbatim>\<open>ErrorCodes []string\<close> is a slice: \<open>None\<close> is the nil slice, \<open>Some xs\<close> a slice that
  is not nil, \<open>Some []\<close> among them (what \<^verbatim>\<open>json.Unmarshal\<close> stores for the JSON array
  \<^verbatim>\<open>[]\<close>). \<^verbatim>\<open>time.Time\<close> is opaque to the program, which only hands it to the clock:
  it is the type parameter \<open>'t\<close>.
\<close>

record 't reCHAPTCHAResponse =
  res_Success :: bool
  res_ChallengeTS :: 't
  res_Hostname :: string
  res_ApkPackageName :: string
  res_Action :: string
  res_Score :: float32
  res_ErrorCodes :: "string list option"

record Error =
  msg :: string
  ErrorCodes :: "string list option"
  RequestError :: bool
  ResponseBody :: string

record VerifyOption =
  opt_Threshold :: float32
  opt_Action :: string
  opt_Hostname :: string
  opt_ApkPackageName :: string
  opt_ResponseTime :: Duration
  opt_RemoteIP :: string

text \<open>The composite literal \<^verbatim>\<open>VerifyOption{}\<close>: every field at its zero value.\<close>

definition VerifyOption_zero :: VerifyOption where
  "VerifyOption_zero =
     \<lparr>opt_Threshold = Finite 0, opt_Action = [], opt_Hostname = [],
      opt_ApkPackageName = [], opt_ResponseTime = 0, opt_RemoteIP = []\<rparr>"

text \<open>
  \<^verbatim>\<open>url.Values\<close> is \<^verbatim>\<open>map[string][]string\<close>. Of an \<^verbatim>\<open>http.Response\<close> the program uses
  the body only, and reads all of it: \<open>Body\<close> is what \<^verbatim>\<open>ioutil.ReadAll(response.Body)\<close>
  returns, the bytes and the error (\<open>None\<close> for nil).

  The \<^verbatim>\<open>netClient\<close> interface: \<^verbatim>\<open>PostForm\<close> is an effect on the network, the state \<open>'s\<close>,
  so that the number of requests a call makes can be read off the state it returns. It
  returns a response pointer and an error, either of which may be nil.
  The \<^verbatim>\<open>clock\<close> interface: \<^verbatim>\<open>Since\<close>, the value it returns when \<^verbatim>\<open>confirm\<close> calls it.
  An interface field of the engine may be nil (\<open>None\<close>); calling a method of it panics.
\<close>

type_synonym Values = "string \<rightharpoonup> string list"

record Response =
  Body :: "string \<times> string option"

type_synonym 's netClient = "string \<Rightarrow> Values \<Rightarrow> 's \<Rightarrow> (Response option \<times> string option) \<times> 's"

type_synonym 't clock = "'t \<Rightarrow> Duration"

record ('s, 't) ReCAPTCHA =
  client :: "'s netClient option"
  Secret :: string
  ReCAPTCHALink :: string
  Version :: VERSION
  Timeout :: Duration
  horloge :: "'t clock option"

definition reCAPTCHALink :: string where
  "reCAPTCHALink = ''https://www.google.com/recaptcha/api/siteverify''"

text \<open>What a call returns: a panic, or the \<^verbatim>\<open>error\<close> value (\<open>None\<close> for nil).\<close>

datatype outcome = Panic | Return "Error option"

section \<open>Formatting (package fmt)\<close>

text \<open>
  \<^verbatim>\<open>%f\<close> prints a floating-point number with six digits after the point: the exact decimal
  expansion of the binary value, rounded to nearest, ties to even, with a minus sign when
  the sign bit is set.
\<close>

definition round_half_even :: "rat \<Rightarrow> int" where
  "round_half_even x =
     (let f = \<lfloor>x\<rfloor>; r = x - of_int f
      in if r < 1 / 2 then f else if 1 / 2 < r then f + 1 else if even f then f else f + 1)"

definition digit :: "int \<Rightarrow> char" where
  "digit d = ''0123456789'' ! nat d"

function decimal :: "int \<Rightarrow> string" where
  "decimal n = (if n < 10 then [digit n] else decimal (n div 10) @ [digit (n mod 10)])"
  by pat_completeness auto
termination
  by (relation "measure nat") auto

declare decimal.simps [simp del]

definition fixed6 :: "rat \<Rightarrow> string" where
  "fixed6 x =
     (let n = round_half_even (x * 1000000)
      in decimal (n div 1000000) @ ''.'' @
         map (\<lambda>i. digit (n div 10 ^ i mod 10)) [5, 4, 3, 2, 1, 0])"

definition fmt_f :: "bool \<Rightarrow> rat \<Rightarrow> string" where
  "fmt_f negative magnitude = (if negative then ''-'' else []) @ fixed6 magnitude"

fun fmt_f32 :: "float32 \<Rightarrow> string" where
  "fmt_f32 NaN = ''NaN''"
| "fmt_f32 PosInf = ''+Inf''"
| "fmt_f32 NegInf = ''-Inf''"
| "fmt_f32 NegZero = fmt_f True 0"
| "fmt_f32 (Finite x) = fmt_f (x < 0) \<bar>x\<bar>"

text \<open>\<^verbatim>\<open>%v\<close> of a \<^verbatim>\<open>[]string\<close>: the elements between brackets, separated by one space.\<close>

fun spaced :: "string list \<Rightarrow> string" where
  "spaced [] = []"
| "spaced [x] = x"
| "spaced (x # y # ys) = x @ '' '' @ spaced (y # ys)"

definition fmt_v :: "string list option \<Rightarrow> string" where
  "fmt_v xs = ''['' @ spaced (case xs of None \<Rightarrow> [] | Some ys \<Rightarrow> ys) @ '']''"

definition apostrophe :: string where
  "apostrophe = [CHR 0x27]"

section \<open>time.Duration.Seconds\<close>

text \<open>
  \<^verbatim>\<open>
  func (d Duration) Seconds() float64 {
      sec := d / Second
      nsec := d % Second
      return float64(sec) + float64(nsec)/1e9
  }
  \<close>
  Go's integer division truncates towards zero and the remainder has the sign of the
  dividend. Both conversions are exact (\<open>|sec| < 2^34\<close>, \<open>|nsec| < 10^9\<close>); the division
  and the sum are each rounded to the nearest \<^verbatim>\<open>float64\<close>, ties to even. The result is
  modelled by its value, a rational: it is zero only for \<open>d = 0\<close>, and then the positive
  zero, so its sign bit is set exactly when the value is negative.
\<close>

definition pow2 :: "int \<Rightarrow> rat" where
  "pow2 k = (if 0 \<le> k then 2 ^ nat k else 1 / 2 ^ nat (- k))"

text \<open>The number of binary digits of a positive integer.\<close>

function bit_length :: "int \<Rightarrow> nat" where
  "bit_length n = (if n \<le> 0 then 0 else Suc (bit_length (n div 2)))"
  by pat_completeness auto
termination
  by (relation "measure nat") auto

declare bit_length.simps [simp del]

text \<open>
  \<open>ilog2 a\<close> is the exponent \<open>e\<close> with \<open>2^e \<le> a < 2^(e+1)\<close>, for \<open>a > 0\<close>: with \<open>a = p / q\<close>
  and \<open>k\<close> the difference of the bit lengths of \<open>p\<close> and \<open>q\<close>, \<open>a\<close> lies between
  \<open>2^(k-1)\<close> and \<open>2^(k+1)\<close>.
\<close>

definition ilog2 :: "rat \<Rightarrow> int" where
  "ilog2 a =
     (let (p, q) = quotient_of a;
          k = int (bit_length p) - int (bit_length q)
      in if pow2 k \<le> a then k else k - 1)"

text \<open>
  Rounding a rational to the nearest \<^verbatim>\<open>float64\<close>: 53 bits of precision, the least exponent
  of a subnormal being \<open>-1074\<close>. Overflow to an infinity needs a magnitude of \<open>2^1024\<close>,
  which no \<^verbatim>\<open>Duration\<close> reaches.
\<close>

definition float64_round :: "rat \<Rightarrow> rat" where
  "float64_round x =
     (if x = 0 then 0
      else let a = \<bar>x\<bar>; q = max (ilog2 a - 52) (- 1074)
           in sgn x * of_int (round_half_even (a / pow2 q)) * pow2 q)"

definition trunc_quot :: "int \<Rightarrow> int \<Rightarrow> int" where
  "trunc_quot a b = (if (a < 0) = (b < 0) then \<bar>a\<bar> div \<bar>b\<bar> else - (\<bar>a\<bar> div \<bar>b\<bar>))"

definition trunc_rem :: "int \<Rightarrow> int \<Rightarrow> int" where
  "trunc_rem a b = (if a < 0 then - (\<bar>a\<bar> mod \<bar>b\<bar>) else \<bar>a\<bar> mod \<bar>b\<bar>)"

definition Seconds :: "Duration \<Rightarrow> rat" where
  "Seconds d =
     (let sec = trunc_quot (sint d) (sint Second);
          nsec = trunc_rem (sint d) (sint Second)
      in float64_round (of_int sec + float64_round (of_int nsec / 1000000000)))"

definition fmt_f64 :: "rat \<Rightarrow> string" where
  "fmt_f64 x = fmt_f (x < 0) \<bar>x\<bar>"

section \<open>The operations of recaptcha.go\<close>

subsection \<open>NewReCAPTCHA\<close>

text \<open>
  \<^verbatim>\<open>ReCAPTCHA{}\<close>, every field at its zero value, is what \<^verbatim>\<open>NewReCAPTCHA\<close> returns beside
  its error. The two collaborators it installs otherwise come from the standard library
  and are parameters here: \<open>http_Client timeout\<close> is \<^verbatim>\<open>&http.Client{Timeout: timeout}\<close>
  and \<open>realClock\<close> is \<^verbatim>\<open>&realClock{}\<close>. Like the other operations it is given the state
  of the network and returns it; it calls nothing that changes it.
\<close>

definition ReCAPTCHA_zero :: "('s, 't) ReCAPTCHA" where
  "ReCAPTCHA_zero =
     \<lparr>client = None, Secret = [], ReCAPTCHALink = [], Version = 0, Timeout = 0,
      horloge = None\<rparr>"

definition NewReCAPTCHA ::
  "(Duration \<Rightarrow> 's netClient) \<Rightarrow> 't clock \<Rightarrow> string \<Rightarrow> VERSION \<Rightarrow> Duration \<Rightarrow> 's
     \<Rightarrow> (('s, 't) ReCAPTCHA \<times> string option) \<times> 's" where
  "NewReCAPTCHA http_Client realClock ReCAPTCHASecret version timeout s =
     (if ReCAPTCHASecret = []
      then ((ReCAPTCHA_zero, Some ''recaptcha secret cannot be blank''), s)
      else ((\<lparr>client = Some (http_Client timeout),
              Secret = ReCAPTCHASecret,
              ReCAPTCHALink = reCAPTCHALink,
              Version = version,
              Timeout = timeout,
              horloge = Some realClock\<rparr>, None), s))"

subsection \<open>confirm, lines 164 to 229: the checks on the parsed response\<close>

definition confirm_policy ::
  "('s, 't) ReCAPTCHA \<Rightarrow> reCHAPTCHARequest \<Rightarrow> VerifyOption \<Rightarrow> string
     \<Rightarrow> 't reCHAPTCHAResponse \<Rightarrow> outcome" where
  "confirm_policy r recaptcha options resultBody result =
     (if Version r = V3 \<and> opt_Action options \<noteq> [] \<and> opt_Action options \<noteq> res_Action result
      then Return (Some
        \<lparr>msg = ''invalid response action '' @ apostrophe @ res_Action result @ apostrophe @
                '', while expecting '' @ apostrophe @ opt_Action options @ apostrophe,
         ErrorCodes = None, RequestError = False, ResponseBody = resultBody\<rparr>)
      else if Version r = V3 \<and> \<not> f32_eq (opt_Threshold options) f32_zero
                \<and> f32_gt (opt_Threshold options) (res_Score result)
      then Return (Some
        \<lparr>msg = ''received score '' @ apostrophe @ fmt_f32 (res_Score result) @ apostrophe @
                '', while expecting minimum '' @ apostrophe @
                fmt_f32 (opt_Threshold options) @ apostrophe,
         ErrorCodes = None, RequestError = False, ResponseBody = resultBody\<rparr>)
      else if Version r = V3 \<and> f32_eq (opt_Threshold options) f32_zero
                \<and> f32_gt DefaultThreshold (res_Score result)
      then Return (Some
        \<lparr>msg = ''received score '' @ apostrophe @ fmt_f32 (res_Score result) @ apostrophe @
                '', while expecting minimum '' @ apostrophe @
                fmt_f32 DefaultThreshold @ apostrophe,
         ErrorCodes = None, RequestError = False, ResponseBody = resultBody\<rparr>)
      else if res_ErrorCodes result \<noteq> None
      then Return (Some
        \<lparr>msg = ''remote error codes: '' @ fmt_v (res_ErrorCodes result),
         ErrorCodes = res_ErrorCodes result, RequestError = False,
         ResponseBody = resultBody\<rparr>)
      else if \<not> res_Success result \<and> req_RemoteIP recaptcha \<noteq> []
      then Return (Some
        \<lparr>msg = ''invalid challenge solution or remote IP'',
         ErrorCodes = None, RequestError = False, ResponseBody = resultBody\<rparr>)
      else if \<not> res_Success result
      then Return (Some
        \<lparr>msg = ''invalid challenge solution'',
         ErrorCodes = None, RequestError = False, ResponseBody = resultBody\<rparr>)
      else if opt_Hostname options \<noteq> [] \<and> opt_Hostname options \<noteq> res_Hostname result
      then Return (Some
        \<lparr>msg = ''invalid response hostname '' @ apostrophe @ res_Hostname result @ apostrophe @
                '', while expecting '' @ apostrophe @ opt_Hostname options @ apostrophe,
         ErrorCodes = None, RequestError = False, ResponseBody = resultBody\<rparr>)
      else if opt_ApkPackageName options \<noteq> []
                \<and> opt_ApkPackageName options \<noteq> res_ApkPackageName result
      then Return (Some
        \<lparr>msg = ''invalid response ApkPackageName '' @ apostrophe @
                res_ApkPackageName result @ apostrophe @
                '', while expecting '' @ apostrophe @ opt_ApkPackageName options @ apostrophe,
         ErrorCodes = None, RequestError = False, ResponseBody = resultBody\<rparr>)
      else if opt_ResponseTime options \<noteq> 0
      then (case horloge r of
              None \<Rightarrow> Panic
            | Some Since \<Rightarrow>
                (let duration = Since (res_ChallengeTS result)
                 in if word_sless (opt_ResponseTime options) duration
                    then Return (Some
                      \<lparr>msg = ''time spent in resolving challenge '' @ apostrophe @
                              fmt_f64 (Seconds duration) @ ''s'' @ apostrophe @
                              '', while expecting maximum '' @ apostrophe @
                              fmt_f64 (Seconds (opt_ResponseTime options)) @ ''s'' @ apostrophe,
                       ErrorCodes = None, RequestError = False, ResponseBody = resultBody\<rparr>)
                    else Return None))
      else Return None)"

subsection \<open>confirm\<close>

text \<open>
  \<open>json_Unmarshal\<close> is \<^verbatim>\<open>json.Unmarshal\<close> into a \<^verbatim>\<open>reCHAPTCHAResponse\<close>, of the standard
  library: the text of its error (\<open>Inl\<close>) or the struct it filled. An error value
  is modelled by the text its \<^verbatim>\<open>Error()\<close> method returns, which is all that \<^verbatim>\<open>%s\<close>
  prints of it. The deferred \<^verbatim>\<open>response.Body.Close()\<close> returns an error that is dropped.
  \<open>formValues\<close> is the local variable of that name, lines 130 to 135.
\<close>

definition formValues :: "reCHAPTCHARequest \<Rightarrow> Values" where
  "formValues recaptcha =
     (if req_RemoteIP recaptcha \<noteq> []
      then [''secret'' \<mapsto> [req_Secret recaptcha],
            ''remoteip'' \<mapsto> [req_RemoteIP recaptcha],
            ''response'' \<mapsto> [req_Response recaptcha]]
      else [''secret'' \<mapsto> [req_Secret recaptcha],
            ''response'' \<mapsto> [req_Response recaptcha]])"

definition confirm ::
  "(string \<Rightarrow> string + 't reCHAPTCHAResponse) \<Rightarrow> ('s, 't) ReCAPTCHA \<Rightarrow> reCHAPTCHARequest
     \<Rightarrow> VerifyOption \<Rightarrow> 's \<Rightarrow> outcome \<times> 's" where
  "confirm json_Unmarshal r recaptcha options s =
     (case client r of
        None \<Rightarrow> (Panic, s)
      | Some PostForm \<Rightarrow>
          (case PostForm (ReCAPTCHALink r) (formValues recaptcha) s of
             ((response, Some err), s') \<Rightarrow>
               (Return (Some
                  \<lparr>msg = ''error posting to recaptcha endpoint: '' @ apostrophe @ err @
                          apostrophe,
                   ErrorCodes = None, RequestError = True, ResponseBody = []\<rparr>), s')
           | ((None, None), s') \<Rightarrow> (Panic, s')
           | ((Some response, None), s') \<Rightarrow>
               (case Body response of
                  (resultBody, Some err) \<Rightarrow>
                    (Return (Some
                       \<lparr>msg = ''couldn'' @ apostrophe @ ''t read response body: '' @
                               apostrophe @ err @ apostrophe,
                        ErrorCodes = None, RequestError = True, ResponseBody = []\<rparr>), s')
                | (resultBody, None) \<Rightarrow>
                    (case json_Unmarshal resultBody of
                       Inl err \<Rightarrow>
                         (Return (Some
                            \<lparr>msg = ''invalid response body json: '' @ apostrophe @ err @
                                    apostrophe,
                             ErrorCodes = None, RequestError = True,
                             ResponseBody = resultBody\<rparr>), s')
                     | Inr result \<Rightarrow>
                         (confirm_policy r recaptcha options resultBody result, s')))))"

subsection \<open>Verify and VerifyWithOptions\<close>

definition Verify ::
  "(string \<Rightarrow> string + 't reCHAPTCHAResponse) \<Rightarrow> ('s, 't) ReCAPTCHA \<Rightarrow> string
     \<Rightarrow> 's \<Rightarrow> outcome \<times> 's" where
  "Verify json_Unmarshal r challengeResponse s =
     (let body = \<lparr>req_Secret = Secret r, req_Response = challengeResponse, req_RemoteIP = []\<rparr>
      in confirm json_Unmarshal r body VerifyOption_zero s)"

definition VerifyWithOptions ::
  "(string \<Rightarrow> string + 't reCHAPTCHAResponse) \<Rightarrow> ('s, 't) ReCAPTCHA \<Rightarrow> string
     \<Rightarrow> VerifyOption \<Rightarrow> 's \<Rightarrow> outcome \<times> 's" where
  "VerifyWithOptions json_Unmarshal r challengeResponse options s =
     (let body =
            (if opt_RemoteIP options = []
             then \<lparr>req_Secret = Secret r, req_Response = challengeResponse, req_RemoteIP = []\<rparr>
             else \<lparr>req_Secret = Secret r, req_Response = challengeResponse,
                   req_RemoteIP = opt_RemoteIP options\<rparr>)
      in confirm json_Unmarshal r body options s)"

section \<open>The checks of the policy evaluation, one by one\<close>

text \<open>
  The specification lists the checks of lines 164 to 229 as steps that run in order and
  stop at the first failure. Each step is defined here on its own, with the condition and
  the error of the source, and \<open>first_failure\<close> runs a list of steps that way. That
  \<open>confirm_policy\<close> is this sequence is a theorem below, not a definition.
\<close>

datatype step = Pass | Reject Error | Crash

fun first_failure :: "step list \<Rightarrow> outcome" where
  "first_failure [] = Return None"
| "first_failure (Pass # steps) = first_failure steps"
| "first_failure (Reject e # steps) = Return (Some e)"
| "first_failure (Crash # steps) = Panic"

definition step_action ::
  "('s, 't) ReCAPTCHA \<Rightarrow> VerifyOption \<Rightarrow> string \<Rightarrow> 't reCHAPTCHAResponse \<Rightarrow> step" where
  "step_action r options resultBody result =
     (if Version r = V3 \<and> opt_Action options \<noteq> [] \<and> opt_Action options \<noteq> res_Action result
      then Reject
        \<lparr>msg = ''invalid response action '' @ apostrophe @ res_Action result @ apostrophe @
                '', while expecting '' @ apostrophe @ opt_Action options @ apostrophe,
         ErrorCodes = None, RequestError = False, ResponseBody = resultBody\<rparr>
      else Pass)"

text \<open>
  The threshold the score is held against, in the specification's words: the caller's
  threshold if it is set and nonzero, the default otherwise.
\<close>

definition effectiveThreshold :: "VerifyOption \<Rightarrow> float32" where
  "effectiveThreshold options =
     (if f32_eq (opt_Threshold options) f32_zero then DefaultThreshold
      else opt_Threshold options)"

definition score_below_minimum :: "string \<Rightarrow> float32 \<Rightarrow> float32 \<Rightarrow> Error" where
  "score_below_minimum resultBody score threshold =
     \<lparr>msg = ''received score '' @ apostrophe @ fmt_f32 score @ apostrophe @
             '', while expecting minimum '' @ apostrophe @ fmt_f32 threshold @ apostrophe,
      ErrorCodes = None, RequestError = False, ResponseBody = resultBody\<rparr>"

definition step_score ::
  "('s, 't) ReCAPTCHA \<Rightarrow> VerifyOption \<Rightarrow> string \<Rightarrow> 't reCHAPTCHAResponse \<Rightarrow> step" where
  "step_score r options resultBody result =
     (if Version r = V3 \<and> f32_lt (res_Score result) (effectiveThreshold options)
      then Reject (score_below_minimum resultBody (res_Score result)
                     (effectiveThreshold options))
      else Pass)"

definition step_error_codes :: "string \<Rightarrow> 't reCHAPTCHAResponse \<Rightarrow> step" where
  "step_error_codes resultBody result =
     (if res_ErrorCodes result \<noteq> None
      then Reject
        \<lparr>msg = ''remote error codes: '' @ fmt_v (res_ErrorCodes result),
         ErrorCodes = res_ErrorCodes result, RequestError = False,
         ResponseBody = resultBody\<rparr>
      else Pass)"

definition step_success ::
  "reCHAPTCHARequest \<Rightarrow> string \<Rightarrow> 't reCHAPTCHAResponse \<Rightarrow> step" where
  "step_success recaptcha resultBody result =
     (if res_Success result then Pass
      else Reject
        \<lparr>msg = (if req_RemoteIP recaptcha \<noteq> []
                then ''invalid challenge solution or remote IP''
                else ''invalid challenge solution''),
         ErrorCodes = None, RequestError = False, ResponseBody = resultBody\<rparr>)"

definition step_hostname :: "VerifyOption \<Rightarrow> string \<Rightarrow> 't reCHAPTCHAResponse \<Rightarrow> step" where
  "step_hostname options resultBody result =
     (if opt_Hostname options \<noteq> [] \<and> opt_Hostname options \<noteq> res_Hostname result
      then Reject
        \<lparr>msg = ''invalid response hostname '' @ apostrophe @ res_Hostname result @ apostrophe @
                '', while expecting '' @ apostrophe @ opt_Hostname options @ apostrophe,
         ErrorCodes = None, RequestError = False, ResponseBody = resultBody\<rparr>
      else Pass)"

definition step_app_package :: "VerifyOption \<Rightarrow> string \<Rightarrow> 't reCHAPTCHAResponse \<Rightarrow> step" where
  "step_app_package options resultBody result =
     (if opt_ApkPackageName options \<noteq> []
           \<and> opt_ApkPackageName options \<noteq> res_ApkPackageName result
      then Reject
        \<lparr>msg = ''invalid response ApkPackageName '' @ apostrophe @
                res_ApkPackageName result @ apostrophe @
                '', while expecting '' @ apostrophe @ opt_ApkPackageName options @ apostrophe,
         ErrorCodes = None, RequestError = False, ResponseBody = resultBody\<rparr>
      else Pass)"

definition response_time_exceeded :: "string \<Rightarrow> Duration \<Rightarrow> Duration \<Rightarrow> Error" where
  "response_time_exceeded resultBody duration maximum =
     \<lparr>msg = ''time spent in resolving challenge '' @ apostrophe @
             fmt_f64 (Seconds duration) @ ''s'' @ apostrophe @
             '', while expecting maximum '' @ apostrophe @
             fmt_f64 (Seconds maximum) @ ''s'' @ apostrophe,
      ErrorCodes = None, RequestError = False, ResponseBody = resultBody\<rparr>"

definition step_response_time ::
  "('s, 't) ReCAPTCHA \<Rightarrow> VerifyOption \<Rightarrow> string \<Rightarrow> 't reCHAPTCHAResponse \<Rightarrow> step" where
  "step_response_time r options resultBody result =
     (if opt_ResponseTime options = 0 then Pass
      else case horloge r of
             None \<Rightarrow> Crash
           | Some Since \<Rightarrow>
               if word_sless (opt_ResponseTime options) (Since (res_ChallengeTS result))
               then Reject (response_time_exceeded resultBody
                              (Since (res_ChallengeTS result)) (opt_ResponseTime options))
               else Pass)"

definition policy_steps ::
  "('s, 't) ReCAPTCHA \<Rightarrow> reCHAPTCHARequest \<Rightarrow> VerifyOption \<Rightarrow> string
     \<Rightarrow> 't reCHAPTCHAResponse \<Rightarrow> step list" where
  "policy_steps r recaptcha options resultBody result =
     [step_action r options resultBody result,
      step_score r options resultBody result,
      step_error_codes resultBody result,
      step_success recaptcha resultBody result,
      step_hostname options resultBody result,
      step_app_package options resultBody result,
      step_response_time r options resultBody result]"

section \<open>Concrete engines and responses\<close>

text \<open>
  The inputs of the repository's own tests, for evaluating the definitions. A timestamp
  is its text, the state of the network is the number of requests made so far, and
  \<open>serve\<close> is a client that answers every request the same way.
\<close>

definition serve :: "Response option \<times> string option \<Rightarrow> nat netClient" where
  "serve answer url values s = (answer, Suc s)"

definition answer_body :: "string \<Rightarrow> Response option \<times> string option" where
  "answer_body text = (Some \<lparr>Body = (text, None)\<rparr>, None)"

definition fixed_clock :: "Duration \<Rightarrow> string clock" where
  "fixed_clock d t = d"

definition engine ::
  "VERSION \<Rightarrow> Response option \<times> string option \<Rightarrow> string clock option
     \<Rightarrow> (nat, string) ReCAPTCHA" where
  "engine version answer h =
     \<lparr>client = Some (serve answer), Secret = ''my secret'', ReCAPTCHALink = reCAPTCHALink,
      Version = version, Timeout = 10 * Second, horloge = h\<rparr>"

text \<open>A stand-in for \<^verbatim>\<open>&http.Client{Timeout: timeout}\<close>: a server that cannot be reached.\<close>

definition example_http_Client :: "Duration \<Rightarrow> nat netClient" where
  "example_http_Client timeout = serve (None, Some ''Unable to connect to server'')"

definition request_mycode :: reCHAPTCHARequest where
  "request_mycode =
     \<lparr>req_Secret = ''my secret'', req_Response = ''mycode'', req_RemoteIP = []\<rparr>"

definition challenge_ts :: string where
  "challenge_ts = ''2018-03-06T03:41:29+00:00''"

text \<open>A successful answer with a low score: \<^verbatim>\<open>{"success": true, "challenge_ts": ..., "score": 0.23}\<close>.
  The \<^verbatim>\<open>float32\<close> nearest to 0.23 is \<open>15435039 / 2^26\<close>.\<close>

definition body_low_score :: string where
  "body_low_score =
     ''{'' @ [CHR 0x22] @ ''success'' @ [CHR 0x22] @ '': true, '' @
     [CHR 0x22] @ ''challenge_ts'' @ [CHR 0x22] @ '': '' @
     [CHR 0x22] @ challenge_ts @ [CHR 0x22] @ '', '' @
     [CHR 0x22] @ ''score'' @ [CHR 0x22] @ '': 0.23}''"

definition result_low_score :: "string reCHAPTCHAResponse" where
  "result_low_score =
     \<lparr>res_Success = True, res_ChallengeTS = challenge_ts, res_Hostname = [],
      res_ApkPackageName = [], res_Action = [],
      res_Score = Finite (15435039 / 67108864), res_ErrorCodes = None\<rparr>"

text \<open>A successful answer with an empty list of error codes:
  \<^verbatim>\<open>{"success": true, "challenge_ts": ..., "hostname": "test.com", "error-codes": []}\<close>.\<close>

definition body_empty_codes :: string where
  "body_empty_codes =
     ''{'' @ [CHR 0x22] @ ''success'' @ [CHR 0x22] @ '': true, '' @
     [CHR 0x22] @ ''challenge_ts'' @ [CHR 0x22] @ '': '' @
     [CHR 0x22] @ challenge_ts @ [CHR 0x22] @ '', '' @
     [CHR 0x22] @ ''hostname'' @ [CHR 0x22] @ '': '' @
     [CHR 0x22] @ ''test.com'' @ [CHR 0x22] @ '', '' @
     [CHR 0x22] @ ''error-codes'' @ [CHR 0x22] @ '': []}''"

definition result_empty_codes :: "string reCHAPTCHAResponse" where
  "result_empty_codes =
     \<lparr>res_Success = True, res_ChallengeTS = challenge_ts, res_Hostname = ''test.com'',
      res_ApkPackageName = [], res_Action = [],
      res_Score = Finite 0, res_ErrorCodes = Some []\<rparr>"

text \<open>A failed answer with two error codes:
  \<^verbatim>\<open>{"success": false, ..., "error-codes": ["invalid-input-response","bad-request"]}\<close>.\<close>

definition body_failed :: string where
  "body_failed =
     ''{'' @ [CHR 0x22] @ ''success'' @ [CHR 0x22] @ '': false, '' @
     [CHR 0x22] @ ''challenge_ts'' @ [CHR 0x22] @ '': '' @
     [CHR 0x22] @ challenge_ts @ [CHR 0x22] @ '', '' @
     [CHR 0x22] @ ''hostname'' @ [CHR 0x22] @ '': '' @
     [CHR 0x22] @ ''test.com'' @ [CHR 0x22] @ '', '' @
     [CHR 0x22] @ ''error-codes'' @ [CHR 0x22] @ '': ['' @
     [CHR 0x22] @ ''invalid-input-response'' @ [CHR 0x22] @ '','' @
     [CHR 0x22] @ ''bad-request'' @ [CHR 0x22] @ '']}''"

definition result_failed :: "string reCHAPTCHAResponse" where
  "result_failed =
     \<lparr>res_Success = False, res_ChallengeTS = challenge_ts, res_Hostname = ''test.com'',
      res_ApkPackageName = [], res_Action = [],
      res_Score = Finite 0,
      res_ErrorCodes = Some [''invalid-input-response'', ''bad-request'']\<rparr>"

text \<open>A successful answer and an unsuccessful one, neither with a score or error codes:
  \<^verbatim>\<open>{"success": true, "challenge_ts": ..., "hostname": "test.com"}\<close>.\<close>

definition body_success :: string where
  "body_success =
     ''{'' @ [CHR 0x22] @ ''success'' @ [CHR 0x22] @ '': true, '' @
     [CHR 0x22] @ ''challenge_ts'' @ [CHR 0x22] @ '': '' @
     [CHR 0x22] @ challenge_ts @ [CHR 0x22] @ '', '' @
     [CHR 0x22] @ ''hostname'' @ [CHR 0x22] @ '': '' @
     [CHR 0x22] @ ''test.com'' @ [CHR 0x22] @ ''}''"

definition result_success :: "string reCHAPTCHAResponse" where
  "result_success =
     \<lparr>res_Success = True, res_ChallengeTS = challenge_ts, res_Hostname = ''test.com'',
      res_ApkPackageName = [], res_Action = [],
      res_Score = Finite 0, res_ErrorCodes = None\<rparr>"

definition body_invalid_solution :: string where
  "body_invalid_solution =
     ''{'' @ [CHR 0x22] @ ''success'' @ [CHR 0x22] @ '': false, '' @
     [CHR 0x22] @ ''challenge_ts'' @ [CHR 0x22] @ '': '' @
     [CHR 0x22] @ challenge_ts @ [CHR 0x22] @ '', '' @
     [CHR 0x22] @ ''hostname'' @ [CHR 0x22] @ '': '' @
     [CHR 0x22] @ ''test.com'' @ [CHR 0x22] @ ''}''"

definition result_invalid_solution :: "string reCHAPTCHAResponse" where
  "result_invalid_solution =
     \<lparr>res_Success = False, res_ChallengeTS = challenge_ts, res_Hostname = ''test.com'',
      res_ApkPackageName = [], res_Action = [],
      res_Score = Finite 0, res_ErrorCodes = None\<rparr>"

text \<open>
  \<^verbatim>\<open>json.Unmarshal\<close> on these bodies; on every other text, the error it reports for the
  body \<^verbatim>\<open>bogus json\<close> of the tests.
\<close>

definition example_Unmarshal :: "string \<Rightarrow> string + string reCHAPTCHAResponse" where
  "example_Unmarshal text =
     (if text = body_low_score then Inr result_low_score
      else if text = body_empty_codes then Inr result_empty_codes
      else if text = body_failed then Inr result_failed
      else if text = body_success then Inr result_success
      else if text = body_invalid_solution then Inr result_invalid_solution
      else Inl (''invalid character '' @ apostrophe @ ''b'' @ apostrophe @
                '' looking for beginning of value''))"

section \<open>Properties\<close>

lemmas step_defs = step_action_def step_score_def step_error_codes_def step_success_def
  step_hostname_def step_app_package_def step_response_time_def

lemmas error_defs = score_below_minimum_def response_time_exceeded_def

lemmas fmt_defs = Seconds_def trunc_quot_def trunc_rem_def Second_def float64_round_def
  ilog2_def pow2_def round_half_even_def fmt_f64_def fmt_f_def fixed6_def decimal.simps
  bit_length.simps digit_def Let_def

lemmas example_defs = serve_def answer_body_def fixed_clock_def engine_def request_mycode_def
  result_low_score_def result_empty_codes_def result_failed_def result_success_def
  result_invalid_solution_def VerifyOption_zero_def V2_def V3_def f32_zero_def
  DefaultThreshold_def

lemma first_failure_None_iff:
  "first_failure steps = Return None \<longleftrightarrow> (\<forall>s \<in> set steps. s = Pass)"
  by (induction steps rule: first_failure.induct) auto

lemma confirm_policy_eq_steps:
  "confirm_policy r recaptcha options resultBody result =
     first_failure (policy_steps r recaptcha options resultBody result)"
  by (simp add: confirm_policy_def policy_steps_def step_defs effectiveThreshold_def
      error_defs f32_gt_def Let_def split: option.split)

lemma confirm_parsed:
  assumes "client r = Some PostForm"
    and "PostForm (ReCAPTCHALink r) (formValues recaptcha) s = ((Some response, None), s')"
    and "Body response = (resultBody, None)"
    and "json_Unmarshal resultBody = Inr result"
  shows "confirm json_Unmarshal r recaptcha options s =
           (confirm_policy r recaptcha options resultBody result, s')"
  using assms by (simp add: confirm_def)

lemma f32_ge_not_lt: "f32_ge a b \<Longrightarrow> \<not> f32_lt a b"
  by (cases a; cases b) (auto simp: f32_ge_def)

lemma later_steps_not_score_error:
  "first_failure
     [step_error_codes resultBody result, step_success recaptcha resultBody result,
      step_hostname options resultBody result, step_app_package options resultBody result,
      step_response_time r options resultBody result]
   \<noteq> Return (Some (score_below_minimum body score threshold))"
  by (simp add: step_defs error_defs split: option.split)

text \<open>
  C10. The gate of the action and score checks is the equality \<open>Version r = V3\<close>: for every
  other value of the 8-bit version, named or not, both checks pass whatever the options
  and the response are, and the evaluation is the one of a V2 engine.
\<close>

theorem version_gate_other_than_V3:
  assumes "Version r \<noteq> V3"
  shows "step_action r options resultBody result = Pass
       \<and> step_score r options resultBody result = Pass
       \<and> confirm_policy r recaptcha options resultBody result =
           first_failure
             [step_error_codes resultBody result, step_success recaptcha resultBody result,
              step_hostname options resultBody result,
              step_app_package options resultBody result,
              step_response_time r options resultBody result]
       \<and> confirm_policy r recaptcha options resultBody result =
           confirm_policy (r\<lparr>Version := V2\<rparr>) recaptcha options resultBody result"
  using assms
  by (simp add: confirm_policy_eq_steps policy_steps_def step_defs V2_def V3_def)

theorem version_gate_other_than_V3_witness:
  "Version (engine 7 (answer_body body_low_score) None) \<noteq> V3
   \<and> step_action (engine 7 (answer_body body_low_score) None)
        (VerifyOption_zero\<lparr>opt_Action := ''homepage''\<rparr>) body_low_score result_low_score = Pass
   \<and> step_score (engine 7 (answer_body body_low_score) None)
        (VerifyOption_zero\<lparr>opt_Action := ''homepage''\<rparr>) body_low_score result_low_score = Pass
   \<and> confirm_policy (engine 7 (answer_body body_low_score) None) request_mycode
        (VerifyOption_zero\<lparr>opt_Action := ''homepage''\<rparr>) body_low_score result_low_score
       = Return None"
  using version_gate_other_than_V3 [of "engine 7 (answer_body body_low_score) None"
      "VerifyOption_zero\<lparr>opt_Action := ''homepage''\<rparr>" body_low_score result_low_score
      request_mycode]
  by (simp add: example_defs step_defs)

text \<open>
  C7. With the empty secret \<open>NewReCAPTCHA\<close> returns the zero engine and the error
  "recaptcha secret cannot be blank"; with any other secret it returns no error and an
  engine that holds the secret, the version and the timeout it was given, the fixed
  endpoint, an HTTP client with that timeout and the real clock. Either way the state of
  the network is the one it was called in.
\<close>

theorem NewReCAPTCHA_blank_or_preserved:
  "NewReCAPTCHA http_Client realClock [] version timeout s =
     ((ReCAPTCHA_zero, Some ''recaptcha secret cannot be blank''), s)
   \<and> (secret \<noteq> [] \<longrightarrow>
        (\<exists>r. NewReCAPTCHA http_Client realClock secret version timeout s = ((r, None), s)
           \<and> Secret r = secret \<and> Version r = version \<and> Timeout r = timeout
           \<and> ReCAPTCHALink r = reCAPTCHALink
           \<and> client r = Some (http_Client timeout) \<and> horloge r = Some realClock))"
  by (simp add: NewReCAPTCHA_def)

theorem NewReCAPTCHA_blank_or_preserved_witness:
  "''my secret'' \<noteq> []
   \<and> snd (fst (NewReCAPTCHA example_http_Client (fixed_clock Second)
                 ''my secret'' V2 (10 * Second) 0)) = None
   \<and> snd (NewReCAPTCHA example_http_Client (fixed_clock Second)
            ''my secret'' V2 (10 * Second) 0) = 0
   \<and> Secret (fst (fst (NewReCAPTCHA example_http_Client (fixed_clock Second)
                        ''my secret'' V2 (10 * Second) 0))) = ''my secret''
   \<and> Version (fst (fst (NewReCAPTCHA example_http_Client (fixed_clock Second)
                         ''my secret'' V2 (10 * Second) 0))) = V2
   \<and> Timeout (fst (fst (NewReCAPTCHA example_http_Client (fixed_clock Second)
                         ''my secret'' V2 (10 * Second) 0))) = 10 * Second
   \<and> ReCAPTCHALink (fst (fst (NewReCAPTCHA example_http_Client (fixed_clock Second)
                               ''my secret'' V2 (10 * Second) 0))) = reCAPTCHALink"
  using NewReCAPTCHA_blank_or_preserved [of example_http_Client
      "fixed_clock Second" V2 "10 * Second" 0 "''my secret''"]
  by auto


lemma first_failure_Some_iff:
  "first_failure steps = Return (Some e) \<longleftrightarrow>
     (\<exists>i < length steps. steps ! i = Reject e \<and> (\<forall>j < i. steps ! j = Pass))"
proof (induction steps rule: first_failure.induct)
  case 1
  then show ?case by simp
next
  case (2 steps)
  show ?case
  proof
    assume "first_failure (Pass # steps) = Return (Some e)"
    with 2 obtain i where i: "i < length steps" "steps ! i = Reject e" "\<forall>j < i. steps ! j = Pass"
      by auto
    have "\<forall>j < Suc i. (Pass # steps) ! j = Pass"
      using i(3) by (auto simp: nth_Cons split: nat.splits)
    with i show "\<exists>i < length (Pass # steps). (Pass # steps) ! i = Reject e
        \<and> (\<forall>j < i. (Pass # steps) ! j = Pass)"
      by (intro exI [of _ "Suc i"]) simp
  next
    assume "\<exists>i < length (Pass # steps). (Pass # steps) ! i = Reject e
        \<and> (\<forall>j < i. (Pass # steps) ! j = Pass)"
    then obtain i where i: "i < length (Pass # steps)" "(Pass # steps) ! i = Reject e"
      "\<forall>j < i. (Pass # steps) ! j = Pass" by blast
    from i(2) obtain k where k: "i = Suc k" by (cases i) auto
    have "\<forall>j < k. steps ! j = Pass"
    proof (intro allI impI)
      fix j assume "j < k"
      then have "(Pass # steps) ! Suc j = Pass" using i(3) k by auto
      then show "steps ! j = Pass" by simp
    qed
    with i k have "\<exists>i < length steps. steps ! i = Reject e \<and> (\<forall>j < i. steps ! j = Pass)"
      by auto
    with 2 show "first_failure (Pass # steps) = Return (Some e)" by simp
  qed
next
  case (3 e' steps)
  show ?case
  proof
    assume "first_failure (Reject e' # steps) = Return (Some e)"
    then have "e' = e" by simp
    then show "\<exists>i < length (Reject e' # steps). (Reject e' # steps) ! i = Reject e
        \<and> (\<forall>j < i. (Reject e' # steps) ! j = Pass)"
      by (intro exI [of _ 0]) simp
  next
    assume "\<exists>i < length (Reject e' # steps). (Reject e' # steps) ! i = Reject e
        \<and> (\<forall>j < i. (Reject e' # steps) ! j = Pass)"
    then obtain i where i: "(Reject e' # steps) ! i = Reject e"
      "\<forall>j < i. (Reject e' # steps) ! j = Pass" by blast
    have "i = 0"
    proof (rule ccontr)
      assume "i \<noteq> 0"
      then have "(Reject e' # steps) ! 0 = Pass" using i(2) by blast
      then show False by simp
    qed
    with i(1) show "first_failure (Reject e' # steps) = Return (Some e)" by simp
  qed
next
  case (4 steps)
  show ?case
  proof
    assume "first_failure (Crash # steps) = Return (Some e)"
    then show "\<exists>i < length (Crash # steps). (Crash # steps) ! i = Reject e
        \<and> (\<forall>j < i. (Crash # steps) ! j = Pass)" by simp
  next
    assume "\<exists>i < length (Crash # steps). (Crash # steps) ! i = Reject e
        \<and> (\<forall>j < i. (Crash # steps) ! j = Pass)"
    then obtain i where i: "(Crash # steps) ! i = Reject e"
      "\<forall>j < i. (Crash # steps) ! j = Pass" by blast
    have "i = 0"
    proof (rule ccontr)
      assume "i \<noteq> 0"
      then have "(Crash # steps) ! 0 = Pass" using i(2) by blast
      then show False by simp
    qed
    with i(1) show "first_failure (Crash # steps) = Return (Some e)" by simp
  qed
qed

text \<open>
  C4. The evaluation of lines 164 to 229 is the run of the seven checks in the order
  action, score, remote error codes, success flag, hostname, app package, response time,
  stopping at the first that does not pass: it accepts exactly when every check passes,
  and it returns an error exactly when some check rejects with that error and every
  check before it passes.
\<close>

theorem checks_run_in_order:
  "confirm_policy r recaptcha options resultBody result =
     first_failure
       [step_action r options resultBody result,
        step_score r options resultBody result,
        step_error_codes resultBody result,
        step_success recaptcha resultBody result,
        step_hostname options resultBody result,
        step_app_package options resultBody result,
        step_response_time r options resultBody result]
   \<and> (confirm_policy r recaptcha options resultBody result = Return None \<longleftrightarrow>
        (\<forall>s \<in> set (policy_steps r recaptcha options resultBody result). s = Pass))
   \<and> (confirm_policy r recaptcha options resultBody result = Return (Some e) \<longleftrightarrow>
        (\<exists>i < 7. policy_steps r recaptcha options resultBody result ! i = Reject e
           \<and> (\<forall>j < i. policy_steps r recaptcha options resultBody result ! j = Pass)))"
proof -
  have len: "length (policy_steps r recaptcha options resultBody result) = 7"
    by (simp add: policy_steps_def)
  have "confirm_policy r recaptcha options resultBody result = Return (Some e) \<longleftrightarrow>
        (\<exists>i < length (policy_steps r recaptcha options resultBody result).
           policy_steps r recaptcha options resultBody result ! i = Reject e
           \<and> (\<forall>j < i. policy_steps r recaptcha options resultBody result ! j = Pass))"
    unfolding confirm_policy_eq_steps by (rule first_failure_Some_iff)
  moreover have "confirm_policy r recaptcha options resultBody result =
     first_failure
       [step_action r options resultBody result,
        step_score r options resultBody result,
        step_error_codes resultBody result,
        step_success recaptcha resultBody result,
        step_hostname options resultBody result,
        step_app_package options resultBody result,
        step_response_time r options resultBody result]"
    by (simp add: confirm_policy_eq_steps policy_steps_def)
  moreover have "confirm_policy r recaptcha options resultBody result = Return None \<longleftrightarrow>
        (\<forall>s \<in> set (policy_steps r recaptcha options resultBody result). s = Pass)"
    unfolding confirm_policy_eq_steps by (rule first_failure_None_iff)
  ultimately show ?thesis
    unfolding len by blast
qed

text \<open>A V3 engine and an answer that fails the score check, carries error codes, is
  unsuccessful and has another hostname, all at once: the action check passes and the
  error is the one of the score check.\<close>

theorem checks_run_in_order_witness:
  "confirm_policy (engine V3 (answer_body body_failed) None) request_mycode
     (VerifyOption_zero\<lparr>opt_Hostname := ''other.com''\<rparr>) body_failed result_failed
   = Return (Some (score_below_minimum body_failed (Finite 0) DefaultThreshold))
   \<and> policy_steps (engine V3 (answer_body body_failed) None) request_mycode
       (VerifyOption_zero\<lparr>opt_Hostname := ''other.com''\<rparr>) body_failed result_failed ! 0
     = Pass
   \<and> policy_steps (engine V3 (answer_body body_failed) None) request_mycode
       (VerifyOption_zero\<lparr>opt_Hostname := ''other.com''\<rparr>) body_failed result_failed ! 1
     = Reject (score_below_minimum body_failed (Finite 0) DefaultThreshold)
   \<and> step_error_codes body_failed result_failed \<noteq> Pass
   \<and> step_success request_mycode body_failed result_failed \<noteq> Pass
   \<and> step_hostname (VerifyOption_zero\<lparr>opt_Hostname := ''other.com''\<rparr>)
       body_failed result_failed \<noteq> Pass"
  using checks_run_in_order [of "engine V3 (answer_body body_failed) None" request_mycode
      "VerifyOption_zero\<lparr>opt_Hostname := ''other.com''\<rparr>" body_failed result_failed
      "score_below_minimum body_failed (Finite 0) DefaultThreshold"]
  by (simp add: example_defs step_defs policy_steps_def effectiveThreshold_def)


end
